theory Spec2Isabelle
  imports Main "HOL-Library.Word"
begin

section \<open>nanogui/shader.h: type tags\<close>

text \<open>
  \<^verbatim>\<open>size_t\<close> is taken to be 64 bits wide; arithmetic on it wraps.
\<close>

type_synonym size_t = "64 word"

text \<open>
  \<^verbatim>\<open>enum class VariableType\<close> (shader.h, lines 24-26), in the order of the source.
\<close>

datatype VariableType =
  Invalid | Int8 | UInt8 | Int16 | UInt16 | Int32 | UInt32 | Int64 | UInt64
  | Float16 | Float32 | Float64 | Bool

text \<open>
  The template parameter \<^verbatim>\<open>T\<close> of \<^verbatim>\<open>get_type<T>()\<close> is seen by the function only
  through five compile-time traits: \<^verbatim>\<open>std::is_same_v<T, bool>\<close>, \<^verbatim>\<open>is_integral_v<T>\<close>,
  \<^verbatim>\<open>std::is_signed_v<T>\<close>, \<^verbatim>\<open>std::is_floating_point_v<T>\<close> and \<^verbatim>\<open>sizeof(T)\<close>.
  A native type is modelled by the values of these traits.
\<close>

record ctype =
  is_bool :: bool
  is_integral :: bool
  is_signed :: bool
  is_floating_point :: bool
  sizeof :: size_t

text \<open>
  \<^verbatim>\<open>get_type<T>()\<close> (lines 28-51): the test for \<^verbatim>\<open>bool\<close> comes first, then the
  integral types by size and signedness, else the floating-point types by size; every path
  that returns nothing falls through to \<^verbatim>\<open>Invalid\<close>.
\<close>

definition get_type :: "ctype \<Rightarrow> VariableType" where
  "get_type T =
     (if is_bool T then Bool
      else if is_integral T then
        (if sizeof T = 1 then (if is_signed T then Int8 else UInt8)
         else if sizeof T = 2 then (if is_signed T then Int16 else UInt16)
         else if sizeof T = 4 then (if is_signed T then Int32 else UInt32)
         else if sizeof T = 8 then (if is_signed T then Int64 else UInt64)
         else Invalid)
      else if is_floating_point T then
        (if sizeof T = 2 then Float16
         else if sizeof T = 4 then Float32
         else if sizeof T = 8 then Float64
         else Invalid)
      else Invalid)"

text \<open>
  What C++ guarantees of the traits of any type: \<^verbatim>\<open>bool\<close> is an unsigned integral type
  (one byte wide on every target of the library), and no type is both integral and
  floating-point.
\<close>

definition native_type :: "ctype \<Rightarrow> bool" where
  "native_type T \<longleftrightarrow>
     (is_bool T \<longrightarrow> is_integral T \<and> \<not> is_signed T \<and> sizeof T = 1) \<and>
     (is_integral T \<longrightarrow> \<not> is_floating_point T)"

text \<open>
  Modelled from the spec: \<^verbatim>\<open>type_size\<close> is declared in shader.h (line 54) and defined
  elsewhere. The spec gives it as a fixed lookup table with one entry per tag, the integer
  tags of width 1, 2, 4 and 8 bytes, the float tags of 16, 32 and 64 bits, and
  \<^verbatim>\<open>Invalid\<close> mapped to 0; \<^verbatim>\<open>Bool\<close> is one byte.
\<close>

fun type_size :: "VariableType \<Rightarrow> size_t" where
  "type_size Invalid = 0"
| "type_size Int8 = 1"
| "type_size UInt8 = 1"
| "type_size Int16 = 2"
| "type_size UInt16 = 2"
| "type_size Int32 = 4"
| "type_size UInt32 = 4"
| "type_size Int64 = 8"
| "type_size UInt64 = 8"
| "type_size Float16 = 2"
| "type_size Float32 = 4"
| "type_size Float64 = 8"
| "type_size Bool = 1"

text \<open>Some native types of the usual 64-bit targets, by their traits.\<close>

definition bool_t :: ctype where
  "bool_t = \<lparr>is_bool = True, is_integral = True, is_signed = False,
             is_floating_point = False, sizeof = 1\<rparr>"

definition int32_t :: ctype where
  "int32_t = \<lparr>is_bool = False, is_integral = True, is_signed = True,
              is_floating_point = False, sizeof = 4\<rparr>"

definition uint32_t :: ctype where
  "uint32_t = \<lparr>is_bool = False, is_integral = True, is_signed = False,
               is_floating_point = False, sizeof = 4\<rparr>"

definition float_t :: ctype where
  "float_t = \<lparr>is_bool = False, is_integral = False, is_signed = True,
              is_floating_point = True, sizeof = 4\<rparr>"

definition long_double_t :: ctype where
  "long_double_t = \<lparr>is_bool = False, is_integral = False, is_signed = True,
                    is_floating_point = True, sizeof = 16\<rparr>"

definition pointer_t :: ctype where
  "pointer_t = \<lparr>is_bool = False, is_integral = False, is_signed = False,
                is_floating_point = False, sizeof = 8\<rparr>"

text \<open>A class type of \<open>n\<close> bytes: none of the traits holds.\<close>

definition class_t :: "size_t \<Rightarrow> ctype" where
  "class_t n = \<lparr>is_bool = False, is_integral = False, is_signed = False,
                is_floating_point = False, sizeof = n\<rparr>"

section \<open>Values handed to \<^verbatim>\<open>set_uniform\<close>\<close>

text \<open>
  A nested fixed-size array type \<^verbatim>\<open>Array<Value, Size>\<close> of the array library: either
  a native element type, or an array of \<^verbatim>\<open>Size\<close> values of a nested type.
  \<^verbatim>\<open>Array::Depth\<close> counts the array levels, \<^verbatim>\<open>Array::Scalar\<close> is the innermost
  element type, \<^verbatim>\<open>value.size()\<close> is the outermost extent and \<^verbatim>\<open>value[0]\<close> has the
  nested type. The source calls \<^verbatim>\<open>size()\<close> and \<^verbatim>\<open>operator[]\<close> only under a guard
  on \<^verbatim>\<open>Depth\<close> that makes the receiver an array; on a native element (where the C++
  has no such member) the model gives 0 and the element itself.
\<close>

datatype array_type = Element ctype | Array_of size_t array_type

fun Depth :: "array_type \<Rightarrow> nat" where
  "Depth (Element T) = 0"
| "Depth (Array_of n V) = Suc (Depth V)"

fun Scalar :: "array_type \<Rightarrow> ctype" where
  "Scalar (Element T) = T"
| "Scalar (Array_of n V) = Scalar V"

fun size_m :: "array_type \<Rightarrow> size_t" where
  "size_m (Element T) = 0"
| "size_m (Array_of n V) = n"

fun at0 :: "array_type \<Rightarrow> array_type" where
  "at0 (Element T) = Element T"
| "at0 (Array_of n V) = V"

text \<open>The extents of a nested array type, outermost first.\<close>

fun extents :: "array_type \<Rightarrow> size_t list" where
  "extents (Element T) = []"
| "extents (Array_of n V) = n # extents V"

text \<open>
  A pointer variable declared without an initialiser holds an indeterminate value until
  it is assigned; \<^verbatim>\<open>nullptr\<close> is address 0.
\<close>

datatype pointer = Indeterminate | Addr nat

abbreviation nullptr :: pointer where
  "nullptr \<equiv> Addr 0"

text \<open>
  The argument \<^verbatim>\<open>value\<close> of \<^verbatim>\<open>set_uniform<Array>\<close> together with what the function
  reads of its type \<^verbatim>\<open>Array\<close>:
  \<^item> \<open>is_scalar\<close>: \<^verbatim>\<open>std::is_scalar_v<Array>\<close>, and \<open>Array\<close>: the traits of
    \<^verbatim>\<open>Array\<close> itself, as \<^verbatim>\<open>get_type<Array>()\<close> reads them;
  \<^item> \<open>IsBuiltinArray\<close> and \<open>IsEnokiArray\<close>: the two conditions of lines 135 and 139,
    names that shader.h uses and does not declare, taken as given;
  \<^item> \<open>Size\<close> and \<open>Value\<close>: \<^verbatim>\<open>Array::Size\<close> and the traits of \<^verbatim>\<open>Array::Value\<close>;
  \<^item> \<open>nesting\<close>: the nested array type, for \<^verbatim>\<open>Array::Depth\<close>, \<^verbatim>\<open>Array::Scalar\<close>
    and the \<^verbatim>\<open>size()\<close> calls;
  \<^item> \<open>address\<close>: \<^verbatim>\<open>&value\<close>, and \<open>storage\<close>: \<^verbatim>\<open>value.data()\<close>.
\<close>

record uniform_value =
  is_scalar :: bool
  Array :: ctype
  IsBuiltinArray :: bool
  Size :: size_t
  Value :: ctype
  IsEnokiArray :: bool
  nesting :: array_type
  address :: nat
  storage :: nat

section \<open>Outcomes of a call\<close>

text \<open>
  \<^verbatim>\<open>std::runtime_error\<close> with its message is what shader.h throws. The other four are
  the kinds of failure that the spec names for the operations whose bodies are not in
  shader.h.
\<close>

datatype error =
  runtime_error string
  | unknown_parameter
  | missing_required_binding
  | topology_count_mismatch
  | state_violation

text \<open>
  A call on a state returns with the new state, or throws and leaves the state it had
  reached, or reads a variable that was never assigned.
\<close>

datatype 's outcome = Returned 's | Throws error 's | Undefined

section \<open>\<^verbatim>\<open>Shader::set_uniform\<close>\<close>

text \<open>
  \<^verbatim>\<open>set_uniform\<close> (lines 124-161). \<^verbatim>\<open>set_buffer\<close> is declared in shader.h and defined
  elsewhere, so the function takes it as its first argument. The locals \<^verbatim>\<open>data\<close> and
  \<^verbatim>\<open>vtype\<close> are declared without initialisers: \<open>Indeterminate\<close> and \<open>None\<close>. The
  branch for \<^verbatim>\<open>IsBuiltinArray\<close> (lines 135-138) assigns \<^verbatim>\<open>ndim\<close>, \<^verbatim>\<open>shape[0]\<close> and
  \<^verbatim>\<open>vtype\<close> and does not assign \<^verbatim>\<open>data\<close>.
\<close>

type_synonym 's set_buffer_fn =
  "string \<Rightarrow> VariableType \<Rightarrow> size_t \<Rightarrow> size_t list \<Rightarrow> pointer \<Rightarrow> 's \<Rightarrow> 's outcome"

definition set_uniform :: "'s set_buffer_fn \<Rightarrow> string \<Rightarrow> uniform_value \<Rightarrow> 's \<Rightarrow> 's outcome" where
  "set_uniform set_buffer_m name v s =
     (let shape0 = [1, 1, 1];
          ndim0 = (- 1 :: size_t);
          data0 = Indeterminate;
          vtype0 = None;
          (shape, ndim, data, vtype) =
            (if is_scalar v then
               (shape0, 0, Addr (address v), Some (get_type (Array v)))
             else if IsBuiltinArray v then
               (shape0[0 := Size v], 1, data0, Some (get_type (Value v)))
             else if IsEnokiArray v then
               (let (shape, ndim) =
                  (if Depth (nesting v) = 1 then
                     (shape0[0 := size_m (nesting v)], 1)
                   else if Depth (nesting v) = 2 then
                     (shape0[0 := size_m (nesting v), 1 := size_m (at0 (nesting v))], 2)
                   else if Depth (nesting v) = 3 then
                     (shape0[0 := size_m (nesting v), 1 := size_m (at0 (nesting v)),
                             2 := size_m (at0 (at0 (nesting v)))], 3)
                   else (shape0, ndim0))
                in (shape, ndim, Addr (storage v), Some (get_type (Scalar (nesting v)))))
             else (shape0, ndim0, data0, vtype0))
      in if ndim = - 1 then
           Throws (runtime_error ''Shader::set_uniform(): invalid input array dimension!'') s
         else
           (case vtype of
              None \<Rightarrow> Undefined
            | Some t \<Rightarrow> set_buffer_m name t ndim shape data s))"

section \<open>The shader and its registry\<close>

text \<open>The enumerations of \<^verbatim>\<open>Shader\<close> (lines 62-74 and 220-230).\<close>

datatype PrimitiveType = Point | Line | LineStrip | Triangle | TriangleStrip

datatype BlendMode = None_m | AlphaBlend

datatype BufferType =
  Unknown | VertexBuffer | VertexTexture | VertexSampler | FragmentBuffer
  | FragmentTexture | FragmentSampler | UniformBuffer | IndexBuffer

text \<open>
  \<^verbatim>\<open>struct Buffer\<close> (lines 232-243); the fields \<^verbatim>\<open>type\<close> and \<^verbatim>\<open>size\<close> are
  \<open>btype\<close> and \<open>size_b\<close>.
\<close>

record Buffer =
  buffer :: pointer
  btype :: BufferType
  dtype :: VariableType
  index :: int
  ndim :: size_t
  shape :: "size_t list"
  size_b :: size_t
  dirty :: bool

text \<open>
  The members of \<^verbatim>\<open>Shader\<close> (lines 249-252): the render pass as an opaque handle, the
  name, the registry \<^verbatim>\<open>m_buffers\<close> (an \<^verbatim>\<open>unordered_map\<close>: one entry per key) and the
  blend mode. The backend handles of lines 254-262 are left out.

  Modelled from the spec: three more components stand for state that the spec describes
  and shader.h does not declare. \<open>m_declared\<close> is the interface of the compiled program,
  fixed at construction: each parameter that a stage declares, with its binding role and
  slot. \<open>m_active\<close> is the state of the draw protocol (Active or Inactive). \<open>m_draws\<close>
  lists the draws issued so far.
\<close>

record Shader =
  m_render_pass :: nat
  m_name :: string
  m_buffers :: "string \<rightharpoonup> Buffer"
  m_blend_mode :: BlendMode
  m_declared :: "(string \<times> BufferType \<times> int) list"
  m_active :: bool
  m_draws :: "(PrimitiveType \<times> size_t \<times> size_t \<times> bool) list"

text \<open>
  Modelled from the spec: the constructor is declared in shader.h (lines 92-96) and
  defined elsewhere. A constructed shader has an empty registry, has issued no draw and is
  Inactive; compiling the two sources gives the declared interface, here an argument.
\<close>

definition Shader_new ::
  "nat \<Rightarrow> string \<Rightarrow> (string \<times> BufferType \<times> int) list \<Rightarrow> BlendMode \<Rightarrow> Shader" where
  "Shader_new render_pass name declared blend_mode =
     \<lparr>m_render_pass = render_pass, m_name = name, m_buffers = Map.empty,
      m_blend_mode = blend_mode, m_declared = declared, m_active = False, m_draws = []\<rparr>"

text \<open>
  Modelled from the spec: the binding role of a name. The reserved name \<^verbatim>\<open>indices\<close>
  identifies the index buffer; any other name is looked up in the declared interface.
\<close>

definition parameter_role :: "Shader \<Rightarrow> string \<Rightarrow> (BufferType \<times> int) option" where
  "parameter_role s name =
     (if name = ''indices'' then Some (IndexBuffer, 0) else map_of (m_declared s) name)"

text \<open>
  Modelled from the spec: \<^verbatim>\<open>set_buffer\<close> is declared in shader.h (lines 117-118) and
  defined elsewhere. It registers or replaces the entry of \<open>name\<close>: a name that no stage
  declares is an unknown-parameter error that leaves the registry as it was; otherwise the
  entry takes the call's element type, dimension and shape, its byte size is
  \<open>type_size dtype\<close> times the product of \<open>shape[0..ndim)\<close>, and it is marked dirty. The
  role and slot come from the program's interface, the backend resource is created at the
  next upload and is not touched here. The payload bytes are outside the model, and the
  preconditions of the spec (\<open>ndim\<close> at most 3, a valid \<open>dtype\<close>, readable \<open>data\<close>) are
  the caller's and are not checked.
\<close>

definition set_buffer ::
  "string \<Rightarrow> VariableType \<Rightarrow> size_t \<Rightarrow> size_t list \<Rightarrow> pointer \<Rightarrow> Shader \<Rightarrow> Shader outcome" where
  "set_buffer name type_m ndim_m shape_m data s =
     (case parameter_role s name of
        None \<Rightarrow> Throws unknown_parameter s
      | Some (role, slot) \<Rightarrow>
          Returned (s\<lparr>m_buffers := (m_buffers s)(name \<mapsto>
            \<lparr>buffer = (case m_buffers s name of None \<Rightarrow> nullptr | Some b \<Rightarrow> buffer b),
             btype = role, dtype = type_m, index = slot, ndim = ndim_m, shape = shape_m,
             size_b = type_size type_m * prod_list (take (unat ndim_m) shape_m),
             dirty = True\<rparr>)\<rparr>))"

text \<open>
  Modelled from the spec: \<^verbatim>\<open>begin\<close>, \<^verbatim>\<open>end\<close> and \<^verbatim>\<open>draw_array\<close> are declared in
  shader.h (lines 180, 183 and 205-207) and defined elsewhere. \<^verbatim>\<open>begin\<close> (here
  \<open>begin_m\<close>) fails while Active and when a declared parameter has never been bound;
  otherwise it uploads the dirty entries, clears their flags and makes the shader Active.
  \<^verbatim>\<open>end\<close> (here \<open>end_m\<close>) fails while Inactive and otherwise makes the shader
  Inactive.
\<close>

definition begin_m :: "Shader \<Rightarrow> Shader outcome" where
  "begin_m s =
     (if m_active s then Throws state_violation s
      else if list_ex (\<lambda>(name, role, slot). m_buffers s name = None) (m_declared s) then
        Throws missing_required_binding s
      else
        Returned (s\<lparr>m_buffers := (\<lambda>name. map_option (\<lambda>b. b\<lparr>dirty := False\<rparr>) (m_buffers s name)),
                   m_active := True\<rparr>))"

definition end_m :: "Shader \<Rightarrow> Shader outcome" where
  "end_m s = (if m_active s then Returned (s\<lparr>m_active := False\<rparr>) else Throws state_violation s)"

text \<open>
  Modelled from the spec: whether a buffer of unsigned 32-bit integers is bound under the
  reserved name \<^verbatim>\<open>indices\<close>.
\<close>

definition indices_bound :: "Shader \<Rightarrow> bool" where
  "indices_bound s =
     (case m_buffers s ''indices'' of None \<Rightarrow> False | Some b \<Rightarrow> dtype b = UInt32)"

text \<open>
  Modelled from the spec: \<^verbatim>\<open>draw_array\<close> is valid only while Active; for the topologies
  \<^verbatim>\<open>Line\<close> and \<^verbatim>\<open>Triangle\<close> the count must be a multiple of 2 and of 3; an indexed
  draw needs the index buffer. A call that passes the three checks issues one draw.
\<close>

definition draw_array ::
  "PrimitiveType \<Rightarrow> size_t \<Rightarrow> size_t \<Rightarrow> bool \<Rightarrow> Shader \<Rightarrow> Shader outcome" where
  "draw_array primitive_type offset count_m indexed s =
     (if m_active s then
        (if (primitive_type = Line \<and> count_m mod 2 \<noteq> 0) \<or>
            (primitive_type = Triangle \<and> count_m mod 3 \<noteq> 0) then
           Throws topology_count_mismatch s
         else if indexed \<and> \<not> indices_bound s then Throws missing_required_binding s
         else Returned (s\<lparr>m_draws := m_draws s @ [(primitive_type, offset, count_m, indexed)]\<rparr>))
      else Throws state_violation s)"

text \<open>Values used as examples: a \<^verbatim>\<open>float\<close>, a builtin 3-vector and a 4 by 4 matrix.\<close>

definition scalar_value :: "ctype \<Rightarrow> nat \<Rightarrow> uniform_value" where
  "scalar_value T a =
     \<lparr>is_scalar = True, Array = T, IsBuiltinArray = False, Size = 0, Value = T,
      IsEnokiArray = False, nesting = Element T, address = a, storage = a\<rparr>"

definition builtin_value :: "ctype \<Rightarrow> size_t \<Rightarrow> nat \<Rightarrow> uniform_value" where
  "builtin_value T n a =
     \<lparr>is_scalar = False, Array = class_t (n * sizeof T), IsBuiltinArray = True,
      Size = n, Value = T, IsEnokiArray = False, nesting = Array_of n (Element T),
      address = a, storage = a\<rparr>"

definition enoki_value :: "array_type \<Rightarrow> nat \<Rightarrow> uniform_value" where
  "enoki_value A a =
     \<lparr>is_scalar = False, Array = class_t (prod_list (extents A) * sizeof (Scalar A)),
      IsBuiltinArray = False, Size = size_m A, Value = Scalar A, IsEnokiArray = True,
      nesting = A, address = a, storage = a\<rparr>"

definition Matrix4f :: array_type where
  "Matrix4f = Array_of 4 (Array_of 4 (Element float_t))"

definition Tensor4 :: array_type where
  "Tensor4 = Array_of 2 (Array_of 2 (Array_of 2 (Array_of 2 (Element float_t))))"

text \<open>A value of a class type that is neither of the two array kinds.\<close>

definition opaque_value :: "size_t \<Rightarrow> nat \<Rightarrow> uniform_value" where
  "opaque_value n a =
     \<lparr>is_scalar = False, Array = class_t n, IsBuiltinArray = False, Size = 0,
      Value = class_t n, IsEnokiArray = False, nesting = Element (class_t n),
      address = a, storage = a\<rparr>"

text \<open>
  Two shaders used as examples: one whose program declares a vertex attribute and a
  uniform, and one with no declared parameter that is Active.
\<close>

definition demo_shader :: Shader where
  "demo_shader =
     Shader_new 0 ''demo'' [(''position'', VertexBuffer, 0), (''mvp'', UniformBuffer, 1)] AlphaBlend"

definition active_shader :: Shader where
  "active_shader = (Shader_new 0 ''flat'' [] None_m)\<lparr>m_active := True\<rparr>"

section \<open>Classification of native types\<close>

lemma get_type_bool: "is_bool T \<Longrightarrow> get_type T = Bool"
  by (simp add: get_type_def)

lemma type_size_get_type:
  assumes "native_type T" and "get_type T \<noteq> Invalid"
  shows "type_size (get_type T) = sizeof T"
proof (cases "is_bool T")
  case True
  with assms(1) have "sizeof T = 1"
    by (simp add: native_type_def)
  with True show ?thesis
    by (simp add: get_type_bool)
next
  case False
  with assms(2) show ?thesis
    by (auto simp: get_type_def split: if_splits)
qed

lemma get_type_determines:
  assumes "native_type T" and "native_type U"
    and "get_type T \<noteq> Invalid" and "get_type T = get_type U"
  shows "is_bool T = is_bool U \<and> is_integral T = is_integral U \<and>
         is_floating_point T = is_floating_point U \<and> sizeof T = sizeof U \<and>
         (is_integral T \<longrightarrow> is_signed T = is_signed U)"
proof -
  have "sizeof T = sizeof U"
    using assms type_size_get_type[of T] type_size_get_type[of U] by simp
  moreover have "is_bool T = is_bool U"
    using assms(4) by (auto simp: get_type_def split: if_splits)
  moreover have "is_integral T = is_integral U"
    using assms by (auto simp: get_type_def native_type_def split: if_splits)
  moreover have "is_floating_point T = is_floating_point U"
    using assms by (auto simp: get_type_def native_type_def split: if_splits)
  moreover have "is_signed T = is_signed U" if "is_integral T"
    using that assms by (auto simp: get_type_def native_type_def split: if_splits)
  ultimately show ?thesis by simp
qed

text \<open>
  Claim C1. For a native type \<open>T\<close>, \<open>get_type\<close> returns \<open>Bool\<close> when \<open>T\<close> is
  \<^verbatim>\<open>bool\<close>; the integer tag of \<open>T\<close>'s signedness and byte width when \<open>T\<close> is another
  integral type of 1, 2, 4 or 8 bytes; the float tag of \<open>T\<close>'s byte width when \<open>T\<close> is a
  floating-point type of 2, 4 or 8 bytes; and \<open>Invalid\<close> for every other type. For every
  recognised \<open>T\<close>, \<open>type_size\<close> of the tag is \<^verbatim>\<open>sizeof(T)\<close>. The tag is unique: two
  recognised types with the same tag agree in kind, width and, when integral, signedness.
\<close>

theorem get_type_classification:
  assumes "native_type T" and "native_type U"
  shows
    "(is_bool T \<longrightarrow> get_type T = Bool) \<and>
     (\<not> is_bool T \<and> is_integral T \<longrightarrow>
        (sizeof T = 1 \<longrightarrow> get_type T = (if is_signed T then Int8 else UInt8)) \<and>
        (sizeof T = 2 \<longrightarrow> get_type T = (if is_signed T then Int16 else UInt16)) \<and>
        (sizeof T = 4 \<longrightarrow> get_type T = (if is_signed T then Int32 else UInt32)) \<and>
        (sizeof T = 8 \<longrightarrow> get_type T = (if is_signed T then Int64 else UInt64)) \<and>
        (sizeof T \<notin> {1, 2, 4, 8} \<longrightarrow> get_type T = Invalid)) \<and>
     (is_floating_point T \<longrightarrow>
        (sizeof T = 2 \<longrightarrow> get_type T = Float16) \<and>
        (sizeof T = 4 \<longrightarrow> get_type T = Float32) \<and>
        (sizeof T = 8 \<longrightarrow> get_type T = Float64) \<and>
        (sizeof T \<notin> {2, 4, 8} \<longrightarrow> get_type T = Invalid)) \<and>
     (\<not> is_bool T \<and> \<not> is_integral T \<and> \<not> is_floating_point T \<longrightarrow> get_type T = Invalid) \<and>
     (get_type T \<noteq> Invalid \<longrightarrow> type_size (get_type T) = sizeof T) \<and>
     (get_type T \<noteq> Invalid \<and> get_type T = get_type U \<longrightarrow>
        is_bool T = is_bool U \<and> is_integral T = is_integral U \<and>
        is_floating_point T = is_floating_point U \<and> sizeof T = sizeof U \<and>
        (is_integral T \<longrightarrow> is_signed T = is_signed U))"
proof (intro conjI)
  show "is_bool T \<longrightarrow> get_type T = Bool"
    by (simp add: get_type_bool)
  show "\<not> is_bool T \<and> is_integral T \<longrightarrow>
        (sizeof T = 1 \<longrightarrow> get_type T = (if is_signed T then Int8 else UInt8)) \<and>
        (sizeof T = 2 \<longrightarrow> get_type T = (if is_signed T then Int16 else UInt16)) \<and>
        (sizeof T = 4 \<longrightarrow> get_type T = (if is_signed T then Int32 else UInt32)) \<and>
        (sizeof T = 8 \<longrightarrow> get_type T = (if is_signed T then Int64 else UInt64)) \<and>
        (sizeof T \<notin> {1, 2, 4, 8} \<longrightarrow> get_type T = Invalid)"
    by (simp add: get_type_def)
  have "\<not> is_bool T \<and> \<not> is_integral T" if "is_floating_point T"
    using that assms(1) by (auto simp: native_type_def split: if_splits)
  then show "is_floating_point T \<longrightarrow>
        (sizeof T = 2 \<longrightarrow> get_type T = Float16) \<and>
        (sizeof T = 4 \<longrightarrow> get_type T = Float32) \<and>
        (sizeof T = 8 \<longrightarrow> get_type T = Float64) \<and>
        (sizeof T \<notin> {2, 4, 8} \<longrightarrow> get_type T = Invalid)"
    by (simp add: get_type_def)
  show "\<not> is_bool T \<and> \<not> is_integral T \<and> \<not> is_floating_point T \<longrightarrow> get_type T = Invalid"
    by (simp add: get_type_def)
  show "get_type T \<noteq> Invalid \<longrightarrow> type_size (get_type T) = sizeof T"
    using assms(1) by (simp add: type_size_get_type)
  show "get_type T \<noteq> Invalid \<and> get_type T = get_type U \<longrightarrow>
        is_bool T = is_bool U \<and> is_integral T = is_integral U \<and>
        is_floating_point T = is_floating_point U \<and> sizeof T = sizeof U \<and>
        (is_integral T \<longrightarrow> is_signed T = is_signed U)"
    using get_type_determines[OF assms] by blast
qed

theorem get_type_classification_witness:
  "native_type int32_t \<and> native_type uint32_t \<and>
   get_type int32_t = Int32 \<and> get_type uint32_t = UInt32 \<and>
   type_size (get_type int32_t) = sizeof int32_t \<and> get_type int32_t \<noteq> get_type uint32_t \<and>
   native_type bool_t \<and> native_type float_t \<and>
   get_type bool_t = Bool \<and> get_type float_t = Float32 \<and>
   type_size (get_type bool_t) = sizeof bool_t \<and> type_size (get_type float_t) = sizeof float_t \<and>
   native_type long_double_t \<and> native_type pointer_t \<and>
   get_type long_double_t = Invalid \<and> get_type pointer_t = Invalid"
proof -
  have n: "native_type int32_t" "native_type uint32_t" "native_type bool_t"
    "native_type float_t" "native_type long_double_t" "native_type pointer_t"
    by (simp_all add: native_type_def int32_t_def uint32_t_def bool_t_def float_t_def
        long_double_t_def pointer_t_def)
  have t: "is_integral int32_t" "is_signed int32_t" "\<not> is_bool int32_t" "sizeof int32_t = 4"
    "is_integral uint32_t" "\<not> is_signed uint32_t" "\<not> is_bool uint32_t" "sizeof uint32_t = 4"
    "is_bool bool_t" "sizeof bool_t = 1" "is_floating_point float_t" "sizeof float_t = 4"
    "is_floating_point long_double_t" "sizeof long_double_t = 16"
    "\<not> is_bool pointer_t" "\<not> is_integral pointer_t" "\<not> is_floating_point pointer_t"
    by (simp_all add: int32_t_def uint32_t_def bool_t_def float_t_def long_double_t_def
        pointer_t_def)
  from get_type_classification[OF n(1) n(2)] get_type_classification[OF n(2) n(1)]
    get_type_classification[OF n(3) n(3)] get_type_classification[OF n(4) n(4)]
    get_type_classification[OF n(5) n(5)] get_type_classification[OF n(6) n(6)] n t
  show ?thesis by simp
qed

section \<open>What \<^verbatim>\<open>set_uniform\<close> forwards\<close>

lemma Depth_0: "Depth A = 0 \<longleftrightarrow> (\<exists>T. A = Element T)"
  by (cases A) auto

lemma Depth_Suc: "Depth A = Suc n \<longleftrightarrow> (\<exists>k V. A = Array_of k V \<and> Depth V = n)"
  by (cases A) auto

lemma extents_Depth1: "Depth A = 1 \<Longrightarrow> extents A = [size_m A]"
  by (auto simp: Depth_Suc Depth_0)

lemma extents_Depth2: "Depth A = 2 \<Longrightarrow> extents A = [size_m A, size_m (at0 A)]"
  by (auto simp: Depth_Suc Depth_0 eval_nat_numeral)

lemma extents_Depth3:
  "Depth A = 3 \<Longrightarrow> extents A = [size_m A, size_m (at0 A), size_m (at0 (at0 A))]"
  by (auto simp: Depth_Suc Depth_0 eval_nat_numeral)

lemma length_extents: "length (extents A) = Depth A"
  by (induction A) auto

lemma set_uniform_scalar_call:
  "is_scalar v \<Longrightarrow>
   set_uniform sb name v s = sb name (get_type (Array v)) 0 [1, 1, 1] (Addr (address v)) s"
  by (simp add: set_uniform_def)

lemma set_uniform_builtin_call:
  "\<not> is_scalar v \<Longrightarrow> IsBuiltinArray v \<Longrightarrow>
   set_uniform sb name v s = sb name (get_type (Value v)) 1 [Size v, 1, 1] Indeterminate s"
  by (simp add: set_uniform_def)

lemma set_uniform_enoki1_call:
  "\<not> is_scalar v \<Longrightarrow> \<not> IsBuiltinArray v \<Longrightarrow> IsEnokiArray v \<Longrightarrow> Depth (nesting v) = 1 \<Longrightarrow>
   set_uniform sb name v s =
     sb name (get_type (Scalar (nesting v))) 1 [size_m (nesting v), 1, 1] (Addr (storage v)) s"
  by (simp add: set_uniform_def)

lemma set_uniform_enoki2_call:
  "\<not> is_scalar v \<Longrightarrow> \<not> IsBuiltinArray v \<Longrightarrow> IsEnokiArray v \<Longrightarrow> Depth (nesting v) = 2 \<Longrightarrow>
   set_uniform sb name v s =
     sb name (get_type (Scalar (nesting v))) 2
       [size_m (nesting v), size_m (at0 (nesting v)), 1] (Addr (storage v)) s"
  by (simp add: set_uniform_def)

lemma set_uniform_enoki3_call:
  "\<not> is_scalar v \<Longrightarrow> \<not> IsBuiltinArray v \<Longrightarrow> IsEnokiArray v \<Longrightarrow> Depth (nesting v) = 3 \<Longrightarrow>
   set_uniform sb name v s =
     sb name (get_type (Scalar (nesting v))) 3
       [size_m (nesting v), size_m (at0 (nesting v)), size_m (at0 (at0 (nesting v)))]
       (Addr (storage v)) s"
  by (simp add: set_uniform_def)

lemma set_uniform_throws:
  "\<not> is_scalar v \<Longrightarrow> \<not> IsBuiltinArray v \<Longrightarrow>
   \<not> (IsEnokiArray v \<and> Depth (nesting v) \<in> {1, 2, 3}) \<Longrightarrow>
   set_uniform sb name v s =
     Throws (runtime_error ''Shader::set_uniform(): invalid input array dimension!'') s"
  by (auto simp: set_uniform_def Let_def)

lemma all_less_3: "(\<forall>i<3. P i) \<longleftrightarrow> P 0 \<and> P (Suc 0) \<and> P 2"
  by (auto simp: less_Suc_eq numeral_3_eq_3 numeral_2_eq_2)

lemma set_uniform_cases:
  "(\<not> is_scalar v \<and> \<not> IsBuiltinArray v \<and> \<not> (IsEnokiArray v \<and> Depth (nesting v) \<in> {1, 2, 3}) \<and>
    (\<forall>(sb :: 's set_buffer_fn) s.
       set_uniform sb name v s =
       Throws (runtime_error ''Shader::set_uniform(): invalid input array dimension!'') s)) \<or>
   ((is_scalar v \<or> IsBuiltinArray v \<or> (IsEnokiArray v \<and> Depth (nesting v) \<in> {1, 2, 3})) \<and>
    (\<exists>t n sh d.
       (\<forall>(sb :: 's set_buffer_fn) s.
          set_uniform sb name v s = sb name t n sh d s) \<and>
       n \<in> {0, 1, 2, 3} \<and> length sh = 3 \<and> (\<forall>i<3. unat n \<le> i \<longrightarrow> sh ! i = 1)))"
  (is "?T \<or> (?C \<and> ?F)")
proof -
  have fwd: "?F"
    if "\<forall>(sb :: 's set_buffer_fn) s.
          set_uniform sb name v s = sb name t n sh d s" "n \<in> {0, 1, 2, 3}" "length sh = 3" "\<forall>i<3. unat n \<le> i \<longrightarrow> sh ! i = 1"
    for t n sh d
    using that by blast
  consider (scalar) "is_scalar v"
    | (builtin) "\<not> is_scalar v" "IsBuiltinArray v"
    | (enoki1) "\<not> is_scalar v" "\<not> IsBuiltinArray v" "IsEnokiArray v" "Depth (nesting v) = 1"
    | (enoki2) "\<not> is_scalar v" "\<not> IsBuiltinArray v" "IsEnokiArray v" "Depth (nesting v) = 2"
    | (enoki3) "\<not> is_scalar v" "\<not> IsBuiltinArray v" "IsEnokiArray v" "Depth (nesting v) = 3"
    | (other) "\<not> is_scalar v" "\<not> IsBuiltinArray v"
        "\<not> (IsEnokiArray v \<and> Depth (nesting v) \<in> {1, 2, 3})"
    by auto
  then show ?thesis
  proof cases
    case scalar
    have ?F
      by (rule fwd[where t = "get_type (Array v)" and n = 0 and d = "Addr (address v)"
              and sh = "[1, 1, 1]"])
        (simp_all add: set_uniform_scalar_call scalar all_less_3)
    with scalar show ?thesis by simp
  next
    case builtin
    have ?F
      by (rule fwd[where t = "get_type (Value v)" and n = 1 and d = "Indeterminate"
              and sh = "[Size v, 1, 1]"])
        (simp_all add: set_uniform_builtin_call builtin all_less_3)
    with builtin show ?thesis by simp
  next
    case enoki1
    have ?F
      by (rule fwd[where t = "get_type (Scalar (nesting v))" and n = 1 and d = "Addr (storage v)"
              and sh = "[size_m (nesting v), 1, 1]"])
        (simp_all add: set_uniform_enoki1_call enoki1 all_less_3)
    with enoki1 show ?thesis by simp
  next
    case enoki2
    have ?F
      by (rule fwd[where t = "get_type (Scalar (nesting v))" and n = 2 and d = "Addr (storage v)"
              and sh = "[size_m (nesting v), size_m (at0 (nesting v)), 1]"])
        (simp_all add: set_uniform_enoki2_call enoki2 all_less_3)
    with enoki2 show ?thesis by simp
  next
    case enoki3
    have ?F
      by (rule fwd[where t = "get_type (Scalar (nesting v))" and n = 3 and d = "Addr (storage v)"
              and sh = "[size_m (nesting v), size_m (at0 (nesting v)), size_m (at0 (at0 (nesting v)))]"])
        (simp_all add: set_uniform_enoki3_call enoki3 all_less_3)
    with enoki3 show ?thesis by simp
  next
    case other
    then have "\<forall>(sb :: 's set_buffer_fn) s. set_uniform sb name v s =
       Throws (runtime_error ''Shader::set_uniform(): invalid input array dimension!'') s"
      by (simp add: set_uniform_throws)
    with other show ?thesis by simp
  qed
qed

lemma prod_list_ones: "\<forall>x \<in> set xs. x = (1 :: size_t) \<Longrightarrow> prod_list xs = 1"
  by (induction xs) auto

lemma prod_list_take_ones:
  fixes sh :: "size_t list"
  assumes "\<forall>i<length sh. k \<le> i \<longrightarrow> sh ! i = 1"
  shows "prod_list (take k sh) = prod_list sh"
proof -
  have "x = 1" if "x \<in> set (drop k sh)" for x
  proof -
    from that obtain j where j: "j < length (drop k sh)" "x = drop k sh ! j"
      by (metis in_set_conv_nth)
    then have "k + j < length sh" by simp
    moreover from j have "x = sh ! (k + j)" by simp
    ultimately show ?thesis using assms by simp
  qed
  then have "prod_list (drop k sh) = 1"
    by (simp add: prod_list_ones)
  moreover have "prod_list sh = prod_list (take k sh) * prod_list (drop k sh)"
    by (simp flip: prod_list.append)
  ultimately show ?thesis by simp
qed

text \<open>
  Claim C3. For every scalar value handed to \<open>set_uniform\<close>, the call forwards to
  \<open>set_buffer\<close> with \<open>ndim = 0\<close>, \<open>shape = {1, 1, 1}\<close>, the tag that \<open>get_type\<close> gives the
  value's type, and a pointer to the value itself.
\<close>

theorem set_uniform_scalar:
  assumes "is_scalar v"
  shows "set_uniform (sb :: 's set_buffer_fn) name v s =
           sb name (get_type (Array v)) 0 [1, 1, 1] (Addr (address v)) s"
  using assms by (rule set_uniform_scalar_call)

theorem set_uniform_scalar_witness:
  "is_scalar (scalar_value float_t 4096) \<and>
   (\<forall>(sb :: nat set_buffer_fn) s.
      set_uniform sb ''alpha'' (scalar_value float_t 4096) s =
        sb ''alpha'' Float32 0 [1, 1, 1] (Addr 4096) s) \<and>
   (\<forall>(sb :: nat set_buffer_fn) s.
      set_uniform sb ''flag'' (scalar_value bool_t 512) s =
        sb ''flag'' Bool 0 [1, 1, 1] (Addr 512) s)"
  using set_uniform_scalar[where 's = nat, of "scalar_value float_t 4096" _ "''alpha''"]
        set_uniform_scalar[where 's = nat, of "scalar_value bool_t 512" _ "''flag''"]
  by (simp add: scalar_value_def float_t_def bool_t_def get_type_def)

text \<open>
  Claim C4, evaluated on the source: for a builtin array of three floats the call forwards
  \<open>ndim = 1\<close>, \<open>shape[0] = 3\<close> and the tag of the element type, and the pointer it
  forwards is the unassigned local \<^verbatim>\<open>data\<close>, not the address of the element storage.
\<close>

theorem set_uniform_builtin_array_data:
  "(\<forall>(sb :: nat set_buffer_fn) s.
      set_uniform sb ''light'' (builtin_value float_t 3 4096) s =
        sb ''light'' Float32 1 [3, 1, 1] Indeterminate s) \<and>
   Indeterminate \<noteq> Addr (storage (builtin_value float_t 3 4096))"
  by (simp add: set_uniform_builtin_call builtin_value_def float_t_def get_type_def)

text \<open>
  Claim C5. For every nested array value of depth \<open>d\<close> in 1, 2, 3 handed to
  \<open>set_uniform\<close>, the call forwards to \<open>set_buffer\<close> with \<open>ndim = d\<close> and with
  \<open>shape[i]\<close> the extent at nesting level \<open>i\<close> for \<open>i < d\<close> (the other entries stay
  1). A 4 by 4 float matrix given as a depth-2 array leaves a registry entry with
  \<open>ndim = 2\<close>, \<open>shape = [4, 4, 1]\<close> and a byte size of 16 times the size of
  \<open>Float32\<close>.
\<close>

theorem set_uniform_nested:
  "(\<not> is_scalar v \<and> \<not> IsBuiltinArray v \<and> IsEnokiArray v \<and> Depth (nesting v) = d \<and>
    d \<in> {1, 2, 3} \<longrightarrow>
      set_uniform (sb :: 's set_buffer_fn) name v s =
        sb name (get_type (Scalar (nesting v))) (of_nat d)
          (extents (nesting v) @ replicate (3 - d) 1) (Addr (storage v)) s \<and>
      (\<forall>i<d. (extents (nesting v) @ replicate (3 - d) 1) ! i = extents (nesting v) ! i)) \<and>
   (set_uniform set_buffer name (enoki_value Matrix4f a) z = Returned z' \<longrightarrow>
      (\<exists>b. m_buffers z' name = Some b \<and> dtype b = Float32 \<and> ndim b = 2 \<and>
           shape b = [4, 4, 1] \<and> size_b b = 16 * type_size Float32))"
proof (intro conjI impI)
  assume h: "\<not> is_scalar v \<and> \<not> IsBuiltinArray v \<and> IsEnokiArray v \<and> Depth (nesting v) = d \<and>
    d \<in> {1, 2, 3}"
  then consider "d = 1" | "d = 2" | "d = 3" by auto
  then show "set_uniform sb name v s =
        sb name (get_type (Scalar (nesting v))) (of_nat d)
          (extents (nesting v) @ replicate (3 - d) 1) (Addr (storage v)) s"
  proof cases
    case 1
    with h show ?thesis
      by (simp add: set_uniform_enoki1_call extents_Depth1 numeral_2_eq_2)
  next
    case 2
    with h show ?thesis
      by (simp add: set_uniform_enoki2_call extents_Depth2)
  next
    case 3
    with h show ?thesis
      by (simp add: set_uniform_enoki3_call extents_Depth3)
  qed
  from h have "length (extents (nesting v)) = d"
    by (simp add: length_extents)
  then show "\<forall>i<d. (extents (nesting v) @ replicate (3 - d) 1) ! i = extents (nesting v) ! i"
    by (simp add: nth_append)
next
  assume r: "set_uniform set_buffer name (enoki_value Matrix4f a) z = Returned z'"
  have "set_uniform set_buffer name (enoki_value Matrix4f a) z =
          set_buffer name Float32 2 [4, 4, 1] (Addr a) z"
    by (simp add: set_uniform_enoki2_call enoki_value_def Matrix4f_def float_t_def get_type_def)
  with r have "set_buffer name Float32 2 [4, 4, 1] (Addr a) z = Returned z'"
    by simp
  then show "\<exists>b. m_buffers z' name = Some b \<and> dtype b = Float32 \<and> ndim b = 2 \<and>
           shape b = [4, 4, 1] \<and> size_b b = 16 * type_size Float32"
    by (auto simp: set_buffer_def split: option.splits)
qed

theorem set_uniform_nested_witness:
  "\<not> is_scalar (enoki_value Matrix4f 4096) \<and> \<not> IsBuiltinArray (enoki_value Matrix4f 4096) \<and>
   IsEnokiArray (enoki_value Matrix4f 4096) \<and> Depth (nesting (enoki_value Matrix4f 4096)) = 2 \<and>
   (\<forall>(sb :: nat set_buffer_fn) s.
      set_uniform sb ''mvp'' (enoki_value Matrix4f 4096) s =
        sb ''mvp'' Float32 2 [4, 4, 1] (Addr 4096) s) \<and>
   (\<exists>z'. set_uniform set_buffer ''mvp'' (enoki_value Matrix4f 4096)
            (Shader_new 0 ''demo'' [(''mvp'', UniformBuffer, 7)] None_m) = Returned z' \<and>
         (\<exists>b. m_buffers z' ''mvp'' = Some b \<and> dtype b = Float32 \<and> ndim b = 2 \<and>
              shape b = [4, 4, 1] \<and> size_b b = 64))"
proof -
  let ?v = "enoki_value Matrix4f 4096"
  let ?z = "Shader_new 0 ''demo'' [(''mvp'', UniformBuffer, 7)] None_m"
  have h: "\<not> is_scalar ?v" "\<not> IsBuiltinArray ?v" "IsEnokiArray ?v" "Depth (nesting ?v) = 2"
    by (simp_all add: enoki_value_def Matrix4f_def)
  have e: "extents (nesting ?v) = [4, 4]" "get_type (Scalar (nesting ?v)) = Float32"
    "storage ?v = 4096"
    by (simp_all add: enoki_value_def Matrix4f_def float_t_def get_type_def)
  obtain z' where r: "set_uniform set_buffer ''mvp'' ?v ?z = Returned z'"
    by (simp add: set_uniform_enoki2_call h set_buffer_def parameter_role_def Shader_new_def)
  have "\<forall>(sb :: nat set_buffer_fn) s.
      set_uniform sb ''mvp'' ?v s = sb ''mvp'' Float32 2 [4, 4, 1] (Addr 4096) s"
    using set_uniform_nested[where 's = nat and v = ?v and d = 2 and name = "''mvp''"] h e
    by simp
  moreover have "\<exists>b. m_buffers z' ''mvp'' = Some b \<and> dtype b = Float32 \<and> ndim b = 2 \<and>
              shape b = [4, 4, 1] \<and> size_b b = 64"
    using set_uniform_nested[where 's = nat and v = ?v and d = 2 and name = "''mvp''"
        and a = 4096 and z = ?z and z' = z'] r
    by simp
  ultimately show ?thesis using h r by blast
qed

text \<open>
  Claim C6. \<open>set_uniform\<close> raises its invalid-dimension error exactly when the value is
  neither a scalar, nor a builtin one-dimensional array, nor a nested array of depth 1 to
  3. It raises before \<open>set_buffer\<close> is called: whatever \<open>set_buffer\<close> is, the outcome is
  the error on the unchanged state. In every other case the outcome is that of one call
  of \<open>set_buffer\<close>.
\<close>

theorem set_uniform_throws_iff:
  "((\<forall>(sb :: 's set_buffer_fn) s. set_uniform sb name v s =
       Throws (runtime_error ''Shader::set_uniform(): invalid input array dimension!'') s) \<longleftrightarrow>
    \<not> (is_scalar v \<or> IsBuiltinArray v \<or> (IsEnokiArray v \<and> Depth (nesting v) \<in> {1, 2, 3}))) \<and>
   ((is_scalar v \<or> IsBuiltinArray v \<or> (IsEnokiArray v \<and> Depth (nesting v) \<in> {1, 2, 3})) \<longrightarrow>
    (\<exists>t n sh d. \<forall>(sb :: 's set_buffer_fn) s. set_uniform sb name v s = sb name t n sh d s))"
proof -
  let ?E = "runtime_error ''Shader::set_uniform(): invalid input array dimension!''"
  let ?ok = "is_scalar v \<or> IsBuiltinArray v \<or> (IsEnokiArray v \<and> Depth (nesting v) \<in> {1, 2, 3})"
  have fwd: "\<exists>t n sh d. \<forall>(sb :: 's set_buffer_fn) s. set_uniform sb name v s = sb name t n sh d s"
    if ?ok
    using set_uniform_cases[where 's = 's, of v name] that by blast
  have thr: "\<forall>(sb :: 's set_buffer_fn) s. set_uniform sb name v s = Throws ?E s" if "\<not> ?ok"
    using set_uniform_cases[where 's = 's, of v name] that by blast
  have "\<not> ?ok" if all: "\<forall>(sb :: 's set_buffer_fn) s. set_uniform sb name v s = Throws ?E s"
  proof
    assume ?ok
    from fwd[OF this] obtain t n sh d
      where f: "\<forall>(sb :: 's set_buffer_fn) s. set_uniform sb name v s = sb name t n sh d s"
      by blast
    from f have "set_uniform (\<lambda>_ _ _ _ _ s. Returned s) name v (undefined :: 's) = Returned undefined"
      by simp
    with all show False by simp
  qed
  with fwd thr show ?thesis by blast
qed

theorem set_uniform_throws_iff_witness:
  "(\<forall>(sb :: nat set_buffer_fn) s. set_uniform sb ''x'' (opaque_value 24 4096) s =
      Throws (runtime_error ''Shader::set_uniform(): invalid input array dimension!'') s) \<and>
   (\<forall>(sb :: nat set_buffer_fn) s. set_uniform sb ''x'' (enoki_value Tensor4 4096) s =
      Throws (runtime_error ''Shader::set_uniform(): invalid input array dimension!'') s) \<and>
   (\<exists>t n sh d. \<forall>(sb :: nat set_buffer_fn) s.
      set_uniform sb ''x'' (scalar_value float_t 4096) s = sb ''x'' t n sh d s)"
  using set_uniform_throws_iff[where 's = nat, of "''x''" "opaque_value 24 4096"]
        set_uniform_throws_iff[where 's = nat, of "''x''" "enoki_value Tensor4 4096"]
        set_uniform_throws_iff[where 's = nat, of "''x''" "scalar_value float_t 4096"]
  by (simp add: opaque_value_def enoki_value_def scalar_value_def Tensor4_def)

text \<open>
  Claim C10. Every call that \<open>set_uniform\<close> forwards to \<open>set_buffer\<close> has \<open>ndim\<close> in
  0, 1, 2, 3 (the sentinel \<open>-1\<close> is never forwarded: the function throws first), and
  every shape entry at a position at or beyond \<open>ndim\<close> is 1, so the product of
  \<open>shape[0..ndim)\<close> is the product of all three entries.
\<close>

theorem set_uniform_forwarded_shape:
  "(\<forall>(sb :: 's set_buffer_fn) s. set_uniform sb name v s =
       Throws (runtime_error ''Shader::set_uniform(): invalid input array dimension!'') s) \<or>
   (\<exists>t n sh d.
      (\<forall>(sb :: 's set_buffer_fn) s. set_uniform sb name v s = sb name t n sh d s) \<and>
      n \<in> {0, 1, 2, 3} \<and> n \<noteq> - 1 \<and> length sh = 3 \<and>
      (\<forall>i<3. unat n \<le> i \<longrightarrow> sh ! i = 1) \<and>
      prod_list (take (unat n) sh) = prod_list sh)"
proof -
  from set_uniform_cases[where 's = 's, of v name]
  consider (throws) "\<forall>(sb :: 's set_buffer_fn) s. set_uniform sb name v s =
       Throws (runtime_error ''Shader::set_uniform(): invalid input array dimension!'') s"
    | (forwards) t n sh d where
        "\<forall>(sb :: 's set_buffer_fn) s. set_uniform sb name v s = sb name t n sh d s"
        "n \<in> {0, 1, 2, 3}" "length sh = 3" "\<forall>i<3. unat n \<le> i \<longrightarrow> sh ! i = 1"
    by blast
  then show ?thesis
  proof cases
    case throws
    then show ?thesis by (rule disjI1)
  next
    case forwards
    from forwards(2) have "n \<noteq> - 1" by auto
    moreover from forwards(3,4) have "prod_list (take (unat n) sh) = prod_list sh"
      by (intro prod_list_take_ones) simp
    ultimately show ?thesis
      using forwards by (intro disjI2 exI[of _ t] exI[of _ n] exI[of _ sh] exI[of _ d]) simp
  qed
qed

theorem set_uniform_forwarded_shape_witness:
  "\<exists>t n sh d.
     (\<forall>(sb :: nat set_buffer_fn) s.
        set_uniform sb ''mvp'' (enoki_value Matrix4f 4096) s = sb ''mvp'' t n sh d s) \<and>
     n \<in> {0, 1, 2, 3} \<and> length sh = 3 \<and> prod_list (take (unat n) sh) = prod_list sh"
proof -
  have "set_uniform (\<lambda>_ _ _ _ _ s. Returned s) ''mvp'' (enoki_value Matrix4f 4096) (0 :: nat) =
          Returned 0"
    by (simp add: set_uniform_enoki2_call enoki_value_def Matrix4f_def)
  then have "\<not> (\<forall>(sb :: nat set_buffer_fn) s.
      set_uniform sb ''mvp'' (enoki_value Matrix4f 4096) s =
        Throws (runtime_error ''Shader::set_uniform(): invalid input array dimension!'') s)"
    by (metis outcome.distinct(1))
  with set_uniform_forwarded_shape[where 's = nat, of "''mvp''" "enoki_value Matrix4f 4096"]
  show ?thesis by blast
qed

section \<open>The registry\<close>

lemma set_buffer_Returned:
  assumes "set_buffer name t n sh d s = Returned s'"
  shows "\<exists>role slot. parameter_role s name = Some (role, slot) \<and>
           s' = s\<lparr>m_buffers := (m_buffers s)(name \<mapsto>
             \<lparr>buffer = (case m_buffers s name of None \<Rightarrow> nullptr | Some b \<Rightarrow> buffer b),
              btype = role, dtype = t, index = slot, ndim = n, shape = sh,
              size_b = type_size t * prod_list (take (unat n) sh), dirty = True\<rparr>)\<rparr>"
  using assms by (auto simp: set_buffer_def split: option.splits)

lemma set_buffer_entry:
  assumes "set_buffer name t n sh d s = Returned s'"
  shows "\<exists>b. m_buffers s' name = Some b \<and> dtype b = t \<and> ndim b = n \<and> shape b = sh \<and>
           size_b b = type_size t * prod_list (take (unat n) sh) \<and> dirty b \<and>
           buffer b = (case m_buffers s name of None \<Rightarrow> nullptr | Some b0 \<Rightarrow> buffer b0)"
  using set_buffer_Returned[OF assms] by auto

lemma set_buffer_others:
  assumes "set_buffer name t n sh d s = Returned s'"
  shows "dom (m_buffers s') = insert name (dom (m_buffers s))"
    and "k \<noteq> name \<Longrightarrow> m_buffers s' k = m_buffers s k"
    and "m_declared s' = m_declared s" and "m_active s' = m_active s"
    and "m_draws s' = m_draws s" and "parameter_role s' = parameter_role s"
  using set_buffer_Returned[OF assms] by (auto simp: parameter_role_def fun_eq_iff)

text \<open>
  Claim C2. Parameter names are unique per shader: \<open>set_buffer\<close> (and \<open>set_uniform\<close>,
  which forwards to it) on a name that has an entry replaces that entry in place. After
  two calls with the same name the registry holds exactly one entry for the name, with the
  element type, dimension, shape and byte size of the second call, and no entry of
  another name has changed.
\<close>

theorem set_buffer_replaces:
  "(m_buffers s0 name = Some b0 \<and> set_buffer name t0 n0 sh0 d0 s0 = Returned s0' \<longrightarrow>
      (\<exists>b. m_buffers s0' name = Some b \<and> dtype b = t0 \<and> ndim b = n0 \<and> shape b = sh0 \<and>
           size_b b = type_size t0 * prod_list (take (unat n0) sh0) \<and> dirty b) \<and>
      dom (m_buffers s0') = dom (m_buffers s0)) \<and>
   (set_buffer name t1 n1 sh1 d1 s = Returned s1 \<and>
    set_buffer name t2 n2 sh2 d2 s1 = Returned s2 \<longrightarrow>
      (\<exists>b. m_buffers s2 name = Some b \<and> dtype b = t2 \<and> ndim b = n2 \<and> shape b = sh2 \<and>
           size_b b = type_size t2 * prod_list (take (unat n2) sh2) \<and> dirty b) \<and>
      card {b. m_buffers s2 name = Some b} = 1 \<and>
      dom (m_buffers s2) = dom (m_buffers s1) \<and>
      (\<forall>k. k \<noteq> name \<longrightarrow> m_buffers s2 k = m_buffers s1 k)) \<and>
   (set_uniform set_buffer name v1 s = Returned s1 \<and>
    set_uniform set_buffer name v2 s1 = Returned s2 \<longrightarrow>
      (\<exists>t n sh d b.
          (\<forall>(sb :: Shader set_buffer_fn) z. set_uniform sb name v2 z = sb name t n sh d z) \<and>
          m_buffers s2 name = Some b \<and> dtype b = t \<and> ndim b = n \<and> shape b = sh \<and>
          size_b b = type_size t * prod_list (take (unat n) sh) \<and> dirty b) \<and>
      card {b. m_buffers s2 name = Some b} = 1 \<and>
      dom (m_buffers s2) = dom (m_buffers s1))"
proof (intro conjI impI; elim conjE)
  assume e0: "m_buffers s0 name = Some b0"
    and c0: "set_buffer name t0 n0 sh0 d0 s0 = Returned s0'"
  from set_buffer_entry[OF c0]
  show "\<exists>b. m_buffers s0' name = Some b \<and> dtype b = t0 \<and> ndim b = n0 \<and> shape b = sh0 \<and>
           size_b b = type_size t0 * prod_list (take (unat n0) sh0) \<and> dirty b"
    by blast
  from e0 have "name \<in> dom (m_buffers s0)" by auto
  with set_buffer_others(1)[OF c0] show "dom (m_buffers s0') = dom (m_buffers s0)"
    by auto
next
  assume c1: "set_buffer name t1 n1 sh1 d1 s = Returned s1"
    and c2: "set_buffer name t2 n2 sh2 d2 s1 = Returned s2"
  from set_buffer_entry[OF c2]
  show e: "\<exists>b. m_buffers s2 name = Some b \<and> dtype b = t2 \<and> ndim b = n2 \<and> shape b = sh2 \<and>
           size_b b = type_size t2 * prod_list (take (unat n2) sh2) \<and> dirty b"
    by blast
  then show "card {b. m_buffers s2 name = Some b} = 1"
    by auto
  from set_buffer_entry[OF c1] have "name \<in> dom (m_buffers s1)" by auto
  with set_buffer_others(1)[OF c2] show "dom (m_buffers s2) = dom (m_buffers s1)"
    by auto
  show "\<forall>k. k \<noteq> name \<longrightarrow> m_buffers s2 k = m_buffers s1 k"
    using set_buffer_others(2)[OF c2] by simp
next
  assume u1: "set_uniform set_buffer name v1 s = Returned s1"
    and u2: "set_uniform set_buffer name v2 s1 = Returned s2"
  have fwd: "\<exists>t n sh d. \<forall>(sb :: Shader set_buffer_fn) z. set_uniform sb name v z = sb name t n sh d z"
    if "set_uniform set_buffer name v z0 = Returned z1" for v z0 z1
    using set_uniform_cases[where 's = Shader, of v name] that by auto
  from fwd[OF u1] obtain t1 n1 sh1 d1
    where f1: "\<forall>(sb :: Shader set_buffer_fn) z. set_uniform sb name v1 z = sb name t1 n1 sh1 d1 z"
    by blast
  from fwd[OF u2] obtain t2 n2 sh2 d2
    where f2: "\<forall>(sb :: Shader set_buffer_fn) z. set_uniform sb name v2 z = sb name t2 n2 sh2 d2 z"
    by blast
  from f1 u1 have c1: "set_buffer name t1 n1 sh1 d1 s = Returned s1" by simp
  from f2 u2 have c2: "set_buffer name t2 n2 sh2 d2 s1 = Returned s2" by simp
  from set_buffer_entry[OF c2] obtain b where b: "m_buffers s2 name = Some b" "dtype b = t2"
    "ndim b = n2" "shape b = sh2" "size_b b = type_size t2 * prod_list (take (unat n2) sh2)"
    "dirty b"
    by blast
  with f2 show "\<exists>t n sh d b.
          (\<forall>(sb :: Shader set_buffer_fn) z. set_uniform sb name v2 z = sb name t n sh d z) \<and>
          m_buffers s2 name = Some b \<and> dtype b = t \<and> ndim b = n \<and> shape b = sh \<and>
          size_b b = type_size t * prod_list (take (unat n) sh) \<and> dirty b"
    by blast
  from b(1) show "card {b. m_buffers s2 name = Some b} = 1"
    by simp
  from set_buffer_entry[OF c1] have "name \<in> dom (m_buffers s1)" by auto
  with set_buffer_others(1)[OF c2] show "dom (m_buffers s2) = dom (m_buffers s1)"
    by auto
qed

theorem set_buffer_replaces_witness:
  "\<exists>s1 s2.
     set_buffer ''mvp'' Float32 1 [3, 1, 1] (Addr 4096) demo_shader = Returned s1 \<and>
     set_buffer ''mvp'' Int32 2 [4, 4, 1] (Addr 8192) s1 = Returned s2 \<and>
     (\<exists>b. m_buffers s2 ''mvp'' = Some b \<and> dtype b = Int32 \<and> ndim b = 2 \<and>
          shape b = [4, 4, 1] \<and> size_b b = 64 \<and> dirty b) \<and>
     card {b. m_buffers s2 ''mvp'' = Some b} = 1 \<and>
     dom (m_buffers s2) = dom (m_buffers s1)"
proof -
  obtain s1 where s1: "set_buffer ''mvp'' Float32 1 [3, 1, 1] (Addr 4096) demo_shader = Returned s1"
    by (simp add: set_buffer_def parameter_role_def demo_shader_def Shader_new_def)
  have "parameter_role s1 ''mvp'' = Some (UniformBuffer, 1)"
    using set_buffer_others(6)[OF s1]
    by (simp add: parameter_role_def demo_shader_def Shader_new_def)
  then obtain s2 where s2: "set_buffer ''mvp'' Int32 2 [4, 4, 1] (Addr 8192) s1 = Returned s2"
    by (simp add: set_buffer_def)
  from set_buffer_replaces[where name = "''mvp''" and s = demo_shader and ?s1.0 = s1 and ?s2.0 = s2
      and ?t1.0 = Float32 and ?n1.0 = 1 and ?sh1.0 = "[3, 1, 1]" and ?d1.0 = "Addr 4096"
      and ?t2.0 = Int32 and ?n2.0 = 2 and ?sh2.0 = "[4, 4, 1]" and ?d2.0 = "Addr 8192"] s1 s2
  show ?thesis by simp
qed

section \<open>The draw protocol\<close>

lemma begin_m_Returned:
  "begin_m s = Returned s' \<Longrightarrow>
     \<not> m_active s \<and> m_active s' \<and> m_declared s' = m_declared s \<and> m_draws s' = m_draws s \<and>
     dom (m_buffers s') = dom (m_buffers s)"
  by (auto simp: begin_m_def dom_def split: if_splits)

text \<open>
  Claim C7. \<open>begin\<close>, \<open>end\<close> and \<open>draw_array\<close> follow a machine of two states,
  Inactive (the state of a new shader) and Active: \<open>begin\<close> succeeds only from Inactive and
  leads to Active, \<open>end\<close> succeeds only from Active and leads to Inactive, \<open>draw_array\<close>
  succeeds only in Active and stays there. A call out of sequence is a state-violation
  error and leaves state and registry as they were.
\<close>

theorem draw_protocol_states:
  "\<not> m_active (Shader_new render_pass nm declared blend_mode) \<and>
   (begin_m s = Returned s' \<longrightarrow> \<not> m_active s \<and> m_active s') \<and>
   (\<not> m_active s \<and> \<not> list_ex (\<lambda>(name, role, slot). m_buffers s name = None) (m_declared s) \<longrightarrow>
      (\<exists>s'. begin_m s = Returned s' \<and> m_active s')) \<and>
   (m_active s \<longrightarrow> begin_m s = Throws state_violation s) \<and>
   (end_m s = Returned s' \<longrightarrow>
      m_active s \<and> \<not> m_active s' \<and> m_buffers s' = m_buffers s \<and> m_draws s' = m_draws s) \<and>
   (m_active s \<longrightarrow> (\<exists>s'. end_m s = Returned s')) \<and>
   (\<not> m_active s \<longrightarrow> end_m s = Throws state_violation s) \<and>
   (draw_array primitive_type offset count_m indexed s = Returned s' \<longrightarrow>
      m_active s \<and> m_active s' \<and> m_buffers s' = m_buffers s) \<and>
   (\<not> m_active s \<longrightarrow>
      draw_array primitive_type offset count_m indexed s = Throws state_violation s)"
proof (intro conjI)
  show "\<not> m_active (Shader_new render_pass nm declared blend_mode)"
    by (simp add: Shader_new_def)
  show "begin_m s = Returned s' \<longrightarrow> \<not> m_active s \<and> m_active s'"
    by (simp add: begin_m_Returned)
  show "\<not> m_active s \<and> \<not> list_ex (\<lambda>(name, role, slot). m_buffers s name = None) (m_declared s) \<longrightarrow>
      (\<exists>s'. begin_m s = Returned s' \<and> m_active s')"
    by (simp add: begin_m_def)
  show "m_active s \<longrightarrow> begin_m s = Throws state_violation s"
    by (simp add: begin_m_def)
  show "end_m s = Returned s' \<longrightarrow>
      m_active s \<and> \<not> m_active s' \<and> m_buffers s' = m_buffers s \<and> m_draws s' = m_draws s"
    by (auto simp: end_m_def split: if_splits)
  show "m_active s \<longrightarrow> (\<exists>s'. end_m s = Returned s')"
    by (simp add: end_m_def)
  show "\<not> m_active s \<longrightarrow> end_m s = Throws state_violation s"
    by (simp add: end_m_def)
  show "draw_array primitive_type offset count_m indexed s = Returned s' \<longrightarrow>
      m_active s \<and> m_active s' \<and> m_buffers s' = m_buffers s"
    by (auto simp: draw_array_def split: if_splits)
  show "\<not> m_active s \<longrightarrow>
      draw_array primitive_type offset count_m indexed s = Throws state_violation s"
    by (simp add: draw_array_def)
qed

theorem draw_protocol_states_witness:
  "end_m demo_shader = Throws state_violation demo_shader \<and>
   draw_array Point 0 1 False demo_shader = Throws state_violation demo_shader \<and>
   (\<exists>s1 s2 s3 s4.
      set_buffer ''position'' Float32 2 [3, 3, 1] (Addr 4096) demo_shader = Returned s1 \<and>
      set_buffer ''mvp'' Float32 2 [4, 4, 1] (Addr 8192) s1 = Returned s2 \<and>
      begin_m s2 = Returned s3 \<and> m_active s3 \<and>
      begin_m s3 = Throws state_violation s3 \<and>
      end_m s3 = Returned s4 \<and> \<not> m_active s4 \<and>
      end_m s4 = Throws state_violation s4)"
proof -
  obtain s1 where s1: "set_buffer ''position'' Float32 2 [3, 3, 1] (Addr 4096) demo_shader = Returned s1"
    by (simp add: set_buffer_def parameter_role_def demo_shader_def Shader_new_def)
  have d1: "m_declared s1 = m_declared demo_shader" "\<not> m_active s1"
    "dom (m_buffers s1) = {''position''}"
    using set_buffer_others[OF s1] by (simp_all add: demo_shader_def Shader_new_def)
  obtain s2 where s2: "set_buffer ''mvp'' Float32 2 [4, 4, 1] (Addr 8192) s1 = Returned s2"
    using d1 by (simp add: set_buffer_def parameter_role_def demo_shader_def Shader_new_def)
  have d2: "m_declared s2 = m_declared demo_shader" "\<not> m_active s2"
    "dom (m_buffers s2) = {''mvp'', ''position''}"
    using set_buffer_others[OF s2] d1 by simp_all
  have "m_buffers s2 ''position'' \<noteq> None" "m_buffers s2 ''mvp'' \<noteq> None"
    using d2(3) by auto
  then have bound: "\<not> list_ex (\<lambda>(name, role, slot). m_buffers s2 name = None) (m_declared s2)"
    using d2(1) by (simp add: demo_shader_def Shader_new_def)
  from draw_protocol_states[of _ _ _ _ s2] d2(2) bound
  obtain s3 where s3: "begin_m s2 = Returned s3" "m_active s3"
    by blast
  from draw_protocol_states[of _ _ _ _ s3] s3(2)
  obtain s4 where s4: "end_m s3 = Returned s4" "begin_m s3 = Throws state_violation s3"
    by blast
  from draw_protocol_states[of _ _ _ _ s3 s4] s4(1) have i4: "\<not> m_active s4"
    by blast
  with draw_protocol_states[of _ _ _ _ s4] have e4: "end_m s4 = Throws state_violation s4"
    by blast
  have i0: "\<not> m_active demo_shader"
    by (simp add: demo_shader_def Shader_new_def)
  with draw_protocol_states[of _ _ _ _ demo_shader _ Point 0 1 False]
  have "end_m demo_shader = Throws state_violation demo_shader"
    "draw_array Point 0 1 False demo_shader = Throws state_violation demo_shader"
    by blast+
  with s1 s2 s3 s4 i4 e4 show ?thesis by blast
qed

text \<open>
  Claim C8. A \<open>draw_array\<close> call with topology \<open>Line\<close> or \<open>Triangle\<close> whose count is
  not a multiple of 2 or of 3 fails and issues no draw; in an Active shader the error is
  the count mismatch. \<open>draw_array(Triangle, 0, 7, false)\<close> fails and
  \<open>draw_array(Triangle, 0, 9, false)\<close> succeeds. \<open>Point\<close>, \<open>LineStrip\<close> and
  \<open>TriangleStrip\<close> put no constraint on the count.
\<close>

theorem draw_array_count_multiple:
  "((primitive_type = Line \<and> count_m mod 2 \<noteq> 0) \<or>
    (primitive_type = Triangle \<and> count_m mod 3 \<noteq> 0) \<longrightarrow>
      (\<exists>e. draw_array primitive_type offset count_m indexed s = Throws e s) \<and>
      (m_active s \<longrightarrow>
         draw_array primitive_type offset count_m indexed s = Throws topology_count_mismatch s)) \<and>
   (m_active s \<longrightarrow>
      draw_array Triangle 0 7 False s = Throws topology_count_mismatch s \<and>
      draw_array Triangle 0 9 False s =
        Returned (s\<lparr>m_draws := m_draws s @ [(Triangle, 0, 9, False)]\<rparr>)) \<and>
   (m_active s \<and> primitive_type \<in> {Point, LineStrip, TriangleStrip} \<and>
    (indexed \<longrightarrow> indices_bound s) \<longrightarrow>
      draw_array primitive_type offset count_m indexed s =
        Returned (s\<lparr>m_draws := m_draws s @ [(primitive_type, offset, count_m, indexed)]\<rparr>))"
proof (intro conjI)
  show "(primitive_type = Line \<and> count_m mod 2 \<noteq> 0) \<or>
    (primitive_type = Triangle \<and> count_m mod 3 \<noteq> 0) \<longrightarrow>
      (\<exists>e. draw_array primitive_type offset count_m indexed s = Throws e s) \<and>
      (m_active s \<longrightarrow>
         draw_array primitive_type offset count_m indexed s = Throws topology_count_mismatch s)"
    by (auto simp: draw_array_def)
  have "(7 :: size_t) mod 3 \<noteq> 0" "(9 :: size_t) mod 3 = 0"
    by simp_all
  then show "m_active s \<longrightarrow>
      draw_array Triangle 0 7 False s = Throws topology_count_mismatch s \<and>
      draw_array Triangle 0 9 False s =
        Returned (s\<lparr>m_draws := m_draws s @ [(Triangle, 0, 9, False)]\<rparr>)"
    by (simp add: draw_array_def)
  show "m_active s \<and> primitive_type \<in> {Point, LineStrip, TriangleStrip} \<and>
    (indexed \<longrightarrow> indices_bound s) \<longrightarrow>
      draw_array primitive_type offset count_m indexed s =
        Returned (s\<lparr>m_draws := m_draws s @ [(primitive_type, offset, count_m, indexed)]\<rparr>)"
    by (auto simp: draw_array_def)
qed

theorem draw_array_count_multiple_witness:
  "begin_m (Shader_new 0 ''flat'' [] None_m) = Returned active_shader \<and>
   m_active active_shader \<and>
   draw_array Triangle 0 7 False active_shader = Throws topology_count_mismatch active_shader \<and>
   m_draws active_shader = [] \<and>
   (\<exists>s'. draw_array Triangle 0 9 False active_shader = Returned s' \<and>
         m_draws s' = [(Triangle, 0, 9, False)]) \<and>
   draw_array Line 0 5 False active_shader = Throws topology_count_mismatch active_shader \<and>
   (\<exists>s'. draw_array TriangleStrip 0 7 False active_shader = Returned s' \<and>
         m_draws s' = [(TriangleStrip, 0, 7, False)])"
proof -
  have a: "m_active active_shader" "m_draws active_shader = []"
    "begin_m (Shader_new 0 ''flat'' [] None_m) = Returned active_shader"
    by (simp_all add: active_shader_def Shader_new_def begin_m_def)
  have "(5 :: size_t) mod 2 \<noteq> 0" by simp
  with a draw_array_count_multiple[of Line 5 0 False active_shader]
    draw_array_count_multiple[of TriangleStrip 7 0 False active_shader]
  show ?thesis by simp
qed

text \<open>
  Claim C9. An indexed \<open>draw_array\<close> call needs a buffer of unsigned 32-bit integers
  bound under the reserved name \<^verbatim>\<open>indices\<close>. Without it the call fails and issues no
  draw, with the missing-binding error when the call is otherwise valid. After such a
  buffer is bound the same call succeeds.
\<close>

theorem draw_array_indexed_needs_indices:
  "(\<not> indices_bound s \<longrightarrow>
      (\<exists>e. draw_array primitive_type offset count_m True s = Throws e s) \<and>
      (m_active s \<and> \<not> (primitive_type = Line \<and> count_m mod 2 \<noteq> 0) \<and>
       \<not> (primitive_type = Triangle \<and> count_m mod 3 \<noteq> 0) \<longrightarrow>
         draw_array primitive_type offset count_m True s = Throws missing_required_binding s)) \<and>
   (set_buffer ''indices'' UInt32 n sh d s = Returned s' \<longrightarrow>
      indices_bound s' \<and>
      (m_active s \<and> \<not> (primitive_type = Line \<and> count_m mod 2 \<noteq> 0) \<and>
       \<not> (primitive_type = Triangle \<and> count_m mod 3 \<noteq> 0) \<longrightarrow>
         draw_array primitive_type offset count_m True s' =
           Returned (s'\<lparr>m_draws := m_draws s' @ [(primitive_type, offset, count_m, True)]\<rparr>)))"
proof (intro conjI impI; (elim conjE)?)
  assume "\<not> indices_bound s"
  then show "\<exists>e. draw_array primitive_type offset count_m True s = Throws e s"
    by (simp add: draw_array_def)
next
  assume "\<not> indices_bound s" "m_active s" "\<not> (primitive_type = Line \<and> count_m mod 2 \<noteq> 0)"
    "\<not> (primitive_type = Triangle \<and> count_m mod 3 \<noteq> 0)"
  then show "draw_array primitive_type offset count_m True s = Throws missing_required_binding s"
    by (simp add: draw_array_def)
next
  assume r: "set_buffer ''indices'' UInt32 n sh d s = Returned s'"
  from set_buffer_entry[OF r] show b: "indices_bound s'"
    by (auto simp: indices_bound_def)
  assume "m_active s" "\<not> (primitive_type = Line \<and> count_m mod 2 \<noteq> 0)"
    "\<not> (primitive_type = Triangle \<and> count_m mod 3 \<noteq> 0)"
  with b set_buffer_others(4)[OF r]
  show "draw_array primitive_type offset count_m True s' =
           Returned (s'\<lparr>m_draws := m_draws s' @ [(primitive_type, offset, count_m, True)]\<rparr>)"
    by (simp add: draw_array_def)
qed

theorem draw_array_indexed_needs_indices_witness:
  "\<not> indices_bound active_shader \<and> m_active active_shader \<and>
   draw_array Triangle 0 6 True active_shader = Throws missing_required_binding active_shader \<and>
   (\<exists>s'. set_buffer ''indices'' UInt32 1 [6, 1, 1] (Addr 4096) active_shader = Returned s' \<and>
      draw_array Triangle 0 6 True s' =
        Returned (s'\<lparr>m_draws := m_draws s' @ [(Triangle, 0, 6, True)]\<rparr>))"
proof -
  have a: "\<not> indices_bound active_shader" "m_active active_shader"
    by (simp_all add: active_shader_def Shader_new_def indices_bound_def)
  have m: "(6 :: size_t) mod 3 = 0" by simp
  obtain s' where r: "set_buffer ''indices'' UInt32 1 [6, 1, 1] (Addr 4096) active_shader = Returned s'"
    by (simp add: set_buffer_def parameter_role_def)
  from draw_array_indexed_needs_indices[of active_shader Triangle 0 6 1 "[6, 1, 1]" "Addr 4096" s'] a m r
  show ?thesis by simp
qed

end
